theory Spec2Isabelle
  imports Main "HOL-Library.Sublist" "HOL-Library.AList"
begin

section \<open>Python strings\<close>

text \<open>
  Both scripts work on Python \<^verbatim>\<open>str\<close> values with four operations: the substring test
  \<^verbatim>\<open>sub in s\<close>, \<^verbatim>\<open>s.find(sub)\<close>, the slices \<^verbatim>\<open>s[:i]\<close> and \<^verbatim>\<open>s[i:]\<close>, and
  \<^verbatim>\<open>s.upper()\<close>. A text is a \<open>string\<close> here. Every literal of the two scripts that takes
  part in a search is ASCII, so searching the UTF-8 bytes of a text finds the same places
  as searching its code points.
\<close>

primrec py_in :: "string \<Rightarrow> string \<Rightarrow> bool" where
  "py_in sub [] = (sub = [])"
| "py_in sub (c # cs) = (prefix sub (c # cs) \<or> py_in sub cs)"

text \<open>\<^verbatim>\<open>s.find(sub)\<close>: the index of the first occurrence, or \<open>-1\<close>.\<close>

primrec py_find :: "string \<Rightarrow> string \<Rightarrow> int" where
  "py_find [] sub = (if sub = [] then 0 else - 1)"
| "py_find (c # cs) sub =
     (if prefix sub (c # cs) then 0
      else (let i = py_find cs sub in if i < 0 then - 1 else i + 1))"

text \<open>
  \<^verbatim>\<open>s[:i]\<close> and \<^verbatim>\<open>s[i:]\<close>. A negative index counts from the end, and an index outside
  the text is clamped, as Python does.
\<close>

definition slice_to :: "string \<Rightarrow> int \<Rightarrow> string" where
  "slice_to s i = (if i < 0 then take (nat (int (length s) + i)) s else take (nat i) s)"

definition slice_from :: "string \<Rightarrow> int \<Rightarrow> string" where
  "slice_from s i = (if i < 0 then drop (nat (int (length s) + i)) s else drop (nat i) s)"

text \<open>\<^verbatim>\<open>str.upper\<close> on one ASCII character; other characters are left as they are.\<close>

definition ascii_upper :: "char \<Rightarrow> char" where
  "ascii_upper c =
     (case map_of (zip ''abcdefghijklmnopqrstuvwxyz'' ''ABCDEFGHIJKLMNOPQRSTUVWXYZ'') c of
        None \<Rightarrow> c
      | Some C \<Rightarrow> C)"

section \<open>The scraper (\<^verbatim>\<open>scraper.py\<close>)\<close>

subsection \<open>The browser, as the script sees it\<close>

text \<open>
  Every awaited Playwright call either returns or raises. \<open>Exception\<close> stands for any
  exception that \<^verbatim>\<open>except Exception\<close> catches. A call that returns nothing of interest
  returns \<open>()\<close>.
\<close>

datatype exn = Exception string

text \<open>An element handle: \<^verbatim>\<open>link.inner_text()\<close> and \<^verbatim>\<open>link.get_attribute(name)\<close>.\<close>

record link =
  inner_text :: "exn + string"
  get_attribute :: "string \<Rightarrow> exn + string option"

text \<open>
  What the page shows after a navigation: \<^verbatim>\<open>page.content()\<close> and
  \<^verbatim>\<open>page.query_selector_all(selector)\<close>, the elements matching the selector in document
  order.
\<close>

record page =
  page_content :: "exn + string"
  query_selector_all :: "string \<Rightarrow> exn + link list"

text \<open>
  The browser session: \<^verbatim>\<open>chromium.launch\<close>, \<^verbatim>\<open>browser.new_page\<close>,
  \<^verbatim>\<open>page.set_extra_http_headers\<close>, \<^verbatim>\<open>page.goto(url, wait_until='networkidle')\<close> and
  \<^verbatim>\<open>browser.close\<close>. The script visits each address at most once, so \<open>goto\<close> is a
  function of the address.
\<close>

record browser =
  launch :: "exn + unit"
  new_page :: "exn + unit"
  set_extra_http_headers :: "exn + unit"
  goto :: "string \<Rightarrow> exn + page"
  close :: "exn + unit"

subsection \<open>The script\<close>

text \<open>One value of \<^verbatim>\<open>dungeons_data\<close>: \<^verbatim>\<open>{'url': href, 'source': url}\<close>.\<close>

record dungeon_record =
  url :: "string option"
  source :: string

text \<open>
  \<^verbatim>\<open>dungeons_data\<close> is a Python dict. It is an association list here, in insertion
  order; \<^verbatim>\<open>dungeons_data[text] = v\<close> is \<^const>\<open>AList.update\<close>, which replaces the value of
  a key that is present and appends a new key at the end.
\<close>

type_synonym dungeons = "(string \<times> dungeon_record) list"

definition sources :: "string list" where
  "sources = [''https://www.wowhead.com/guides/dungeons'',
              ''https://www.icy-veins.com/wow/'',
              ''https://wowpedia.fandom.com/wiki/Dungeon'']"

definition name_fragments :: "string list" where
  "name_fragments = [''Ara-Kara'', ''Dawnbreaker'', ''Eco-Dome'', ''Operation'', ''Priory'', ''Tazavesh'']"

text \<open>\<^verbatim>\<open>any(name in text for name in [...])\<close>\<close>

definition matches_name :: "string \<Rightarrow> bool" where
  "matches_name text = list_ex (\<lambda>name. py_in name text) name_fragments"

definition dungeon_selector :: string where
  \<open>dungeon_selector = ''a[href*="dungeon"]''\<close>

text \<open>
  The inner loop, \<^verbatim>\<open>for link in dungeon_links[:5]\<close>, on the links it is given. A raise
  leaves the loop; what was stored in \<^verbatim>\<open>dungeons_data\<close> before it stays stored.
\<close>

fun for_links :: "string \<Rightarrow> link list \<Rightarrow> dungeons \<Rightarrow> (exn + unit) \<times> dungeons" where
  "for_links u [] d = (Inr (), d)"
| "for_links u (l # ls) d =
     (case inner_text l of
        Inl e \<Rightarrow> (Inl e, d)
      | Inr text \<Rightarrow>
          (case get_attribute l ''href'' of
             Inl e \<Rightarrow> (Inl e, d)
           | Inr href \<Rightarrow>
               for_links u ls
                 (if matches_name text
                  then AList.update text \<lparr>url = href, source = u\<rparr> d
                  else d)))"

text \<open>
  The body of the \<^verbatim>\<open>try\<close> block for one address. The result is \<open>Inl e\<close> when it raised,
  \<open>Inr True\<close> when it reached \<^verbatim>\<open>break\<close>, and \<open>Inr False\<close> when it fell through.
\<close>

definition try_url :: "browser \<Rightarrow> string \<Rightarrow> dungeons \<Rightarrow> (exn + bool) \<times> dungeons" where
  "try_url b u d =
     (case goto b u of
        Inl e \<Rightarrow> (Inl e, d)
      | Inr pg \<Rightarrow>
          (case page_content pg of
             Inl e \<Rightarrow> (Inl e, d)
           | Inr html \<Rightarrow>
               if py_in ''War Within'' html \<or> py_in ''Season 3'' html
               then (case query_selector_all pg dungeon_selector of
                       Inl e \<Rightarrow> (Inl e, d)
                     | Inr dungeon_links \<Rightarrow>
                         (case for_links u (take 5 dungeon_links) d of
                            (Inl e, d') \<Rightarrow> (Inl e, d')
                          | (Inr _, d') \<Rightarrow> (Inr True, d')))
               else (Inr False, d)))"

text \<open>
  The outer loop, \<^verbatim>\<open>for url in sources\<close>, with \<^verbatim>\<open>except Exception: continue\<close>. The first
  component of the state is the list of addresses \<^verbatim>\<open>page.goto\<close> was called with.
\<close>

fun for_sources :: "browser \<Rightarrow> string list \<Rightarrow> string list \<times> dungeons \<Rightarrow> string list \<times> dungeons" where
  "for_sources b [] (nav, d) = (nav, d)"
| "for_sources b (u # us) (nav, d) =
     (case try_url b u d of
        (Inr True, d') \<Rightarrow> (nav @ [u], d')
      | (Inr False, d') \<Rightarrow> for_sources b us (nav @ [u], d')
      | (Inl e, d') \<Rightarrow> for_sources b us (nav @ [u], d'))"

text \<open>
  \<^verbatim>\<open>scrape_wow_content\<close>. It returns the addresses navigated to and \<^verbatim>\<open>dungeons_data\<close>,
  or raises what the session calls outside the loop raise. The console output is left out.
\<close>

definition scrape_wow_content :: "browser \<Rightarrow> exn + string list \<times> dungeons" where
  "scrape_wow_content b =
     (case launch b of
        Inl e \<Rightarrow> Inl e
      | Inr _ \<Rightarrow>
          (case new_page b of
             Inl e \<Rightarrow> Inl e
           | Inr _ \<Rightarrow>
               (case set_extra_http_headers b of
                  Inl e \<Rightarrow> Inl e
                | Inr _ \<Rightarrow>
                    (let (nav, dungeons_data) = for_sources b sources ([], [])
                     in (case close b of
                           Inl e \<Rightarrow> Inl e
                         | Inr _ \<Rightarrow> Inr (nav, dungeons_data))))))"

subsection \<open>Notions used to state the properties of the scraper\<close>

text \<open>An entry whose key holds a name fragment and whose source is one of \<open>S\<close>.\<close>

definition entry_ok :: "string set \<Rightarrow> string \<times> dungeon_record \<Rightarrow> bool" where
  "entry_ok S kv = (matches_name (fst kv) \<and> source (snd kv) \<in> S)"

text \<open>
  The address is processed without a raise and its content holds one of the two markers:
  navigation and \<^verbatim>\<open>page.content\<close> return, a marker occurs, the selector query returns, and both
  reads of each of the first five links return.
\<close>

definition completes_with_marker :: "browser \<Rightarrow> string \<Rightarrow> bool" where
  "completes_with_marker b u =
     (case goto b u of
        Inl e \<Rightarrow> False
      | Inr pg \<Rightarrow>
          (case page_content pg of
             Inl e \<Rightarrow> False
           | Inr html \<Rightarrow>
               (py_in ''War Within'' html \<or> py_in ''Season 3'' html) \<and>
               (case query_selector_all pg dungeon_selector of
                  Inl e \<Rightarrow> False
                | Inr dungeon_links \<Rightarrow>
                    list_all (\<lambda>l. \<not> isl (inner_text l) \<and> \<not> isl (get_attribute l ''href''))
                      (take 5 dungeon_links))))"

text \<open>The elements of a list up to and including the first one that satisfies \<open>P\<close>.\<close>

fun upto_first :: "('a \<Rightarrow> bool) \<Rightarrow> 'a list \<Rightarrow> 'a list" where
  "upto_first P [] = []"
| "upto_first P (x # xs) = x # (if P x then [] else upto_first P xs)"

text \<open>
  The records that the texts and hrefs read from a list of links give rise to at address
  \<open>u\<close>, in the order of the links, and the result of storing a list of records in turn.
\<close>

definition records_of :: "string \<Rightarrow> (string \<times> string option) list \<Rightarrow> dungeons" where
  "records_of u ths =
     map (\<lambda>(t, h). (t, \<lparr>url = h, source = u\<rparr>)) (filter (\<lambda>(t, h). matches_name t) ths)"

definition store_all :: "dungeons \<Rightarrow> dungeons \<Rightarrow> dungeons" where
  "store_all recs d = fold (\<lambda>(k, v). AList.update k v) recs d"
section \<open>The project-file patcher (\<^verbatim>\<open>ios/scripts/fix-test-target.py\<close>)\<close>

subsection \<open>The world of the script\<close>

definition PROJECT_FILE :: string where
  "PROJECT_FILE = ''HealerKit.xcodeproj/project.pbxproj''"

text \<open>
  A path names a regular file with its text, a directory, or nothing. Opening a
  directory raises; permissions and encodings are not modelled: a regular file can be
  read and written.
\<close>

datatype node = File string | Directory

datatype io_error = IsADirectoryError string | FileNotFoundError string

text \<open>
  The file system, the lines printed so far, and the random source: \<open>uuid4 w n\<close> is the
  text of \<^verbatim>\<open>str(uuid.uuid4())\<close> at the \<open>n\<close>-th call, and \<open>drawn\<close> counts the calls made.
\<close>

record world =
  fs :: "string \<Rightarrow> node option"
  stdout :: "string list"
  uuid4 :: "nat \<Rightarrow> string"
  drawn :: nat

definition print :: "string \<Rightarrow> world \<Rightarrow> world" where
  "print line w = w\<lparr>stdout := stdout w @ [line]\<rparr>"

text \<open>\<^verbatim>\<open>os.path.exists\<close>\<close>

definition path_exists :: "world \<Rightarrow> string \<Rightarrow> bool" where
  "path_exists w path = (fs w path \<noteq> None)"

definition read_project_file :: "world \<Rightarrow> io_error + string" where
  "read_project_file w =
     (case fs w PROJECT_FILE of
        None \<Rightarrow> Inl (FileNotFoundError PROJECT_FILE)
      | Some Directory \<Rightarrow> Inl (IsADirectoryError PROJECT_FILE)
      | Some (File text) \<Rightarrow> Inr text)"

definition write_project_file :: "string \<Rightarrow> world \<Rightarrow> (io_error + unit) \<times> world" where
  "write_project_file content w =
     (case fs w PROJECT_FILE of
        Some Directory \<Rightarrow> (Inl (IsADirectoryError PROJECT_FILE), w)
      | _ \<Rightarrow> (Inr (), w\<lparr>fs := (fs w)(PROJECT_FILE \<mapsto> File content)\<rparr>))"

text \<open>
  \<^verbatim>\<open>generate_uuid\<close>: \<^verbatim>\<open>str(uuid.uuid4()).upper().replace('-', '')[:24]\<close>. \<open>xcode_id\<close> is
  the pure part, from the text of the UUID to the identifier.
\<close>

definition xcode_id :: "string \<Rightarrow> string" where
  "xcode_id uuid_text = take 24 (filter (\<lambda>c. c \<noteq> CHR ''-'') (map ascii_upper uuid_text))"

definition generate_uuid :: "world \<Rightarrow> string \<times> world" where
  "generate_uuid w = (xcode_id (uuid4 w (drawn w)), w\<lparr>drawn := Suc (drawn w)\<rparr>)"

subsection \<open>The three kinds of entry\<close>

definition tab :: string where "tab = [CHR 0x09]"
definition newline :: string where "newline = [CHR 0x0A]"

definition build_file_entry :: "string \<Rightarrow> string \<Rightarrow> string \<Rightarrow> string" where
  "build_file_entry build_file_id file_ref_id file_name =
     tab @ tab @ build_file_id @ '' /* '' @ file_name @
     '' in Sources */ = {isa = PBXBuildFile; fileRef = '' @ file_ref_id @
     '' /* '' @ file_name @ '' */; };''"

definition file_ref_entry :: "string \<Rightarrow> string \<Rightarrow> string" where
  \<open>file_ref_entry file_ref_id file_name =
     tab @ tab @ file_ref_id @ '' /* '' @ file_name @
     '' */ = {isa = PBXFileReference; lastKnownFileType = sourcecode.swift; path = '' @
     file_name @ ''; sourceTree = "<group>"; };''\<close>

definition build_file_ref :: "string \<Rightarrow> string \<Rightarrow> string" where
  "build_file_ref build_file_id file_name =
     tab @ tab @ tab @ tab @ build_file_id @ '' /* '' @ file_name @ '' in Sources */,''"

subsection \<open>The three regular expressions\<close>

definition begin_build_file :: string where
  "begin_build_file = ''/* Begin PBXBuildFile section */''"

definition end_build_file :: string where
  "end_build_file = ''/* End PBXBuildFile section */''"

definition begin_file_reference :: string where
  "begin_file_reference = ''/* Begin PBXFileReference section */''"

definition end_file_reference :: string where
  "end_file_reference = ''/* End PBXFileReference section */''"

definition sources_phase_key :: string where
  "sources_phase_key = ''A194BCD52E7873C400DC3B4F /* Sources */ = {''"

text \<open>
  \<^verbatim>\<open>re.search(r'\/\* Begin ... section \*\/(.*?)\/\* End ... section \*\/', content, re.DOTALL)\<close>,
  of which the script uses only whether it matched. The search tries each start position
  from the left; at a position the begin comment must stand there, and with \<^verbatim>\<open>re.DOTALL\<close>
  the lazy \<^verbatim>\<open>(.*?)\<close> skips any characters up to an end comment after it.
\<close>

fun search_section :: "string \<Rightarrow> string \<Rightarrow> string \<Rightarrow> bool" where
  "search_section b e [] = (prefix b [] \<and> py_in e (drop (length b) []))"
| "search_section b e (c # cs) =
     (if prefix b (c # cs) \<and> py_in e (drop (length b) (c # cs)) then True
      else search_section b e cs)"

text \<open>
  \<^verbatim>\<open>r'(A194BCD52E7873C400DC3B4F \/\* Sources \*\/ = {[^}]+files = \([^)]+)'\<close>, of which the
  script uses \<^verbatim>\<open>sources_match.end()\<close>. Each function matches a tail of the pattern at the
  start of its argument and returns the number of characters matched.

  \<^verbatim>\<open>[^)]+\<close> ends the pattern: it takes the longest run of characters other than \<open>)\<close>,
  which must not be empty.
\<close>

definition not_paren_plus :: "string \<Rightarrow> nat option" where
  "not_paren_plus s =
     (let n = length (takeWhile (\<lambda>c. c \<noteq> CHR '')'') s) in if n = 0 then None else Some n)"

text \<open>\<^verbatim>\<open>files = \([^)]+\<close>\<close>

definition files_list :: "string \<Rightarrow> nat option" where
  "files_list s =
     (if prefix ''files = ('' s
      then map_option (\<lambda>n. 9 + n) (not_paren_plus (drop 9 s))
      else None)"

text \<open>
  \<^verbatim>\<open>[^}]*files = \([^)]+\<close>: the greedy repetition takes a character other than \<open>}\<close>
  whenever the rest of the pattern still matches after it, and gives it back otherwise.
  \<^verbatim>\<open>[^}]+\<close> is one such character followed by \<^verbatim>\<open>[^}]*\<close>.
\<close>

fun not_brace_star :: "string \<Rightarrow> nat option" where
  "not_brace_star [] = files_list []"
| "not_brace_star (c # cs) =
     (if c \<noteq> CHR ''}''
      then (case not_brace_star cs of
              Some n \<Rightarrow> Some (Suc n)
            | None \<Rightarrow> files_list (c # cs))
      else files_list (c # cs))"

definition not_brace_plus :: "string \<Rightarrow> nat option" where
  "not_brace_plus s =
     (case s of
        [] \<Rightarrow> None
      | c # cs \<Rightarrow> if c = CHR ''}'' then None else map_option Suc (not_brace_star cs))"

text \<open>The whole pattern at the start of the text, and searched from the left.\<close>

definition match_sources_phase :: "string \<Rightarrow> nat option" where
  "match_sources_phase s =
     (if prefix sources_phase_key s
      then map_option (\<lambda>n. length sources_phase_key + n)
             (not_brace_plus (drop (length sources_phase_key) s))
      else None)"

fun search_sources_phase :: "string \<Rightarrow> nat option" where
  "search_sources_phase [] = match_sources_phase []"
| "search_sources_phase (c # cs) =
     (case match_sources_phase (c # cs) of
        Some n \<Rightarrow> Some n
      | None \<Rightarrow> map_option Suc (search_sources_phase cs))"

subsection \<open>The script\<close>

text \<open>
  The three edits of \<^verbatim>\<open>add_file_to_project\<close>, in the order of the source. Each is
  guarded by its regular expression and leaves the text alone when that does not match.
\<close>

definition add_build_file :: "string \<Rightarrow> string \<Rightarrow> string \<Rightarrow> string \<Rightarrow> string" where
  "add_build_file content build_file_id file_ref_id file_name =
     (if search_section begin_build_file end_build_file content
      then (let end_pos = py_find content end_build_file
            in slice_to content end_pos @ build_file_entry build_file_id file_ref_id file_name @
               newline @ slice_from content end_pos)
      else content)"

definition add_file_reference :: "string \<Rightarrow> string \<Rightarrow> string \<Rightarrow> string" where
  "add_file_reference content file_ref_id file_name =
     (if search_section begin_file_reference end_file_reference content
      then (let end_pos = py_find content end_file_reference
            in slice_to content end_pos @ file_ref_entry file_ref_id file_name @
               newline @ slice_from content end_pos)
      else content)"

definition add_to_sources_phase :: "string \<Rightarrow> string \<Rightarrow> string \<Rightarrow> string" where
  "add_to_sources_phase content build_file_id file_name =
     (case search_sources_phase content of
        None \<Rightarrow> content
      | Some insert_pos \<Rightarrow>
          take insert_pos content @ newline @ build_file_ref build_file_id file_name @
          drop insert_pos content)"

definition add_file_to_project :: "string \<Rightarrow> string \<Rightarrow> string \<Rightarrow> world \<Rightarrow> string \<times> world" where
  "add_file_to_project content file_path file_name w =
     (let (file_ref_id, w) = generate_uuid w;
          (build_file_id, w) = generate_uuid w;
          w = print (''Adding '' @ file_path @ '' with IDs: '' @ file_ref_id @ '', '' @ build_file_id) w;
          content = add_build_file content build_file_id file_ref_id file_name;
          content = add_file_reference content file_ref_id file_name;
          content = add_to_sources_phase content build_file_id file_name
      in (content, w))"

definition test_files :: "(string \<times> string) list" where
  "test_files =
     [(''DungeonKitTests/ModelTests/DungeonTests.swift'', ''DungeonTests.swift''),
      (''DungeonKitTests/ModelTests/BossEncounterTests.swift'', ''BossEncounterTests.swift''),
      (''DungeonKitTests/ModelTests/SeasonTests.swift'', ''SeasonTests.swift'')]"

text \<open>The loop of \<^verbatim>\<open>main\<close>, \<^verbatim>\<open>for file_path, file_name in test_files\<close>.\<close>

fun add_test_files :: "(string \<times> string) list \<Rightarrow> string \<times> world \<Rightarrow> string \<times> world" where
  "add_test_files [] (content, w) = (content, w)"
| "add_test_files ((file_path, file_name) # rest) (content, w) =
     add_test_files rest
       (if path_exists w file_path
        then (if \<not> py_in file_name content
              then add_file_to_project content file_path file_name
                     (print (''Adding '' @ file_name @ '' to project...'') w)
              else (content, print (''File '' @ file_name @ '' already in project'') w))
        else (content, print (''Warning: '' @ file_path @ '' does not exist'') w))"

text \<open>
  \<^verbatim>\<open>main\<close> returns nothing; the result is whether it raised, and the world it leaves. The
  two closing lines start with the bytes that the source file holds there: seven bytes in
  the first line and nine in the second, the UTF-8 encoding of the characters that a check
  mark and a light bulb turn into when their bytes are read as Windows-1252.
\<close>

definition main :: "world \<Rightarrow> (io_error + unit) \<times> world" where
  "main w =
     (if \<not> path_exists w PROJECT_FILE
      then (Inr (), print (''Error: '' @ PROJECT_FILE @ '' not found'') w)
      else (case read_project_file w of
              Inl e \<Rightarrow> (Inl e, w)
            | Inr content \<Rightarrow>
                (let (content, w) = add_test_files test_files (content, w)
                 in (case write_project_file content w of
                       (Inl e, w) \<Rightarrow> (Inl e, w)
                     | (Inr _, w) \<Rightarrow>
                         (Inr (),
                          print ([CHR 0xC3, CHR 0xB0, CHR 0xC5, CHR 0xB8, CHR 0xE2, CHR 0x80,
                                  CHR 0x99, CHR 0xC2, CHR 0xA1] @
                                 '' Run 'xcodebuild clean' to ensure changes take effect'')
                            (print ([CHR 0xC3, CHR 0xA2, CHR 0xC5, CHR 0x93, CHR 0xE2, CHR 0x80,
                                     CHR 0xA6] @
                                    '' Project file updated successfully!'') w))))))"

subsection \<open>Notions used to state the properties of the patcher\<close>

text \<open>
  The text \<^verbatim>\<open>add_file_to_project\<close> returns, as a function of the two identifiers it
  draws, and the identifier that the \<open>k\<close>-th next draw yields.
\<close>

definition insert_entries :: "string \<Rightarrow> string \<Rightarrow> string \<Rightarrow> string \<Rightarrow> string" where
  "insert_entries content file_name file_ref_id build_file_id =
     add_to_sources_phase
       (add_file_reference (add_build_file content build_file_id file_ref_id file_name)
          file_ref_id file_name)
       build_file_id file_name"

definition nth_id :: "world \<Rightarrow> nat \<Rightarrow> string" where
  "nth_id w k = xcode_id (uuid4 w (drawn w + k))"


subsection \<open>Texts cut at a character\<close>



subsection \<open>Well-formed inputs of the patcher\<close>

text \<open>
  The text of a UUID as \<^verbatim>\<open>str(uuid.uuid4())\<close> gives it: 36 characters, lower-case
  hexadecimal digits in five groups with a dash after the 8th, 12th, 16th and 20th digit.
\<close>

definition uuid_text :: "string \<Rightarrow> bool" where
  "uuid_text s =
     (length s = 36 \<and> set s \<subseteq> set ''0123456789abcdef-'' \<and>
      map (\<lambda>i. s ! i) [8, 13, 18, 23] = ''----'' \<and>
      length (filter (\<lambda>c. c = CHR ''-'') s) = 4)"






text \<open>
  A manifest laid out as Xcode writes it: the build-file section, later the
  file-reference section, later the block of the Sources build phase of the test target
  with its file list. The eight fields are the texts around and between the five fixed
  markers, of which \<open>render\<close> puts the manifest together.
\<close>

record manifest =
  preamble :: string
  build_files :: string
  after_build_files :: string
  file_references :: string
  after_file_references :: string
  phase_head :: string
  phase_files :: string
  remainder :: string










section \<open>Fixtures\<close>

text \<open>Concrete browsers and worlds, on which the theorems below are instantiated.\<close>

definition fixture_link :: "string \<Rightarrow> string \<Rightarrow> link" where
  "fixture_link t h =
     \<lparr>inner_text = Inr t,
      get_attribute = (\<lambda>a. Inr (if a = ''href'' then Some h else None))\<rparr>"

definition detached_link :: link where
  "detached_link =
     \<lparr>inner_text = Inl (Exception ''Element is not attached to the DOM''),
      get_attribute = (\<lambda>a. Inl (Exception ''Element is not attached to the DOM''))\<rparr>"

definition fixture_page :: "string \<Rightarrow> link list \<Rightarrow> page" where
  "fixture_page html anchors =
     \<lparr>page_content = Inr html,
      query_selector_all = (\<lambda>sel. Inr (if sel = dungeon_selector then anchors else []))\<rparr>"

text \<open>A browser that serves the listed pages, fails to resolve any other address, and
  closes as given.\<close>

definition fixture_browser :: "(string \<times> page) list \<Rightarrow> exn + unit \<Rightarrow> browser" where
  "fixture_browser pages closing =
     \<lparr>launch = Inr (), new_page = Inr (), set_extra_http_headers = Inr (),
      goto = (\<lambda>u. case map_of pages u of
                     None \<Rightarrow> Inl (Exception ''net::ERR_NAME_NOT_RESOLVED'')
                   | Some pg \<Rightarrow> Inr pg),
      close = closing\<rparr>"

definition wowhead :: string where "wowhead = ''https://www.wowhead.com/guides/dungeons''"
definition icy_veins :: string where "icy_veins = ''https://www.icy-veins.com/wow/''"
definition wowpedia :: string where "wowpedia = ''https://wowpedia.fandom.com/wiki/Dungeon''"

definition six_anchors :: "link list" where
  "six_anchors =
     [fixture_link ''Ara-Kara, City of Echoes'' ''/dungeon/ara-kara'',
      fixture_link ''News'' ''/news/dungeon-changes'',
      fixture_link ''The Dawnbreaker'' ''/dungeon/dawnbreaker'',
      fixture_link ''Ara-Kara, City of Echoes'' ''/guide/dungeon/ara-kara'',
      fixture_link ''Halls of Atonement'' ''/dungeon/halls'',
      fixture_link ''Tazavesh: Streets of Wonder'' ''/dungeon/tazavesh'']"

definition six_anchor_page :: page where
  "six_anchor_page = fixture_page ''<h1>Season 3 dungeons</h1>'' six_anchors"

definition empty_relevant_page :: page where
  "empty_relevant_page = fixture_page ''The War Within'' []"

definition priory_page :: page where
  "priory_page = fixture_page ''Season 3'' [fixture_link ''Priory of the Sacred Flame'' ''/dungeon/priory'']"

definition tazavesh_page :: page where
  "tazavesh_page = fixture_page ''The War Within''
     [fixture_link ''Tazavesh, the Veiled Market'' ''/wiki/Tazavesh'']"

definition half_read_page :: page where
  "half_read_page = fixture_page ''Season 3''
     [fixture_link ''Priory of the Sacred Flame'' ''/dungeon/priory'', detached_link]"

lemmas fixture_defs = fixture_link_def detached_link_def fixture_page_def fixture_browser_def
  wowhead_def icy_veins_def wowpedia_def six_anchors_def six_anchor_page_def
  empty_relevant_page_def priory_page_def tazavesh_page_def half_read_page_def dungeon_selector_def sources_def
  name_fragments_def matches_name_def try_url_def scrape_wow_content_def
  completes_with_marker_def records_of_def store_all_def

text \<open>A random source that yields six UUIDs in turn.\<close>

definition six_uuids :: "string list" where
  "six_uuids =
     [''0f8fad5b-d9cb-469f-a165-70867728950e'', ''7c9e6679-7425-40de-944b-e07fc1f90ae7'',
      ''3f2504e0-4f89-41d3-9a0c-0305e82c3301'', ''9b2c1d4e-5f60-4a7b-8c9d-0e1f2a3b4c5d'',
      ''c56a4180-65aa-42ec-a945-5fd21dec0538'', ''e4eaaaf2-d142-41b4-b3d1-5b2c8f0a6e77'']"

definition sample_uuids :: "nat \<Rightarrow> string" where
  "sample_uuids n = six_uuids ! (n mod 6)"

definition fixture_world :: "(string \<times> node) list \<Rightarrow> world" where
  "fixture_world disk = \<lparr>fs = map_of disk, stdout = [], uuid4 = sample_uuids, drawn = 0\<rparr>"

definition dungeon_tests :: string where
  "dungeon_tests = ''DungeonKitTests/ModelTests/DungeonTests.swift''"
definition season_tests :: string where
  "season_tests = ''DungeonKitTests/ModelTests/SeasonTests.swift''"

text \<open>A manifest with an empty build-file section and nothing else.\<close>

definition stub_manifest :: string where
  "stub_manifest = begin_build_file @ newline @ end_build_file @ newline"


text \<open>A text that mentions the three file names.\<close>

definition patched_manifest :: string where
  "patched_manifest = ''DungeonTests.swift, BossEncounterTests.swift, SeasonTests.swift''"



section \<open>Occurrences of a pattern in a text\<close>

lemma py_in_sublist: "py_in sub s = sublist sub s"
  by (induction s) (simp_all add: sublist_Cons_right)









section \<open>Properties of the scraper\<close>

subsection \<open>Auxiliary facts\<close>

lemma set_update_subset: "set (AList.update k v al) \<subseteq> insert (k, v) (set al)"
  by (induction al) auto

lemma for_links_ok:
  "\<forall>kv \<in> set d. entry_ok S kv \<Longrightarrow> u \<in> S \<Longrightarrow> \<forall>kv \<in> set (snd (for_links u ls d)). entry_ok S kv"
proof (induction ls arbitrary: d)
  case Nil
  then show ?case by simp
next
  case (Cons l ls)
  show ?case
  proof (cases "inner_text l")
    case (Inl e)
    with Cons.prems show ?thesis by simp
  next
    case t: (Inr t)
    show ?thesis
    proof (cases "get_attribute l ''href''")
      case (Inl e)
      with t Cons.prems show ?thesis by simp
    next
      case (Inr href)
      let ?d = "if matches_name t then AList.update t \<lparr>url = href, source = u\<rparr> d else d"
      have "\<forall>kv \<in> set ?d. entry_ok S kv"
        using Cons.prems set_update_subset [of t "\<lparr>url = href, source = u\<rparr>" d]
        by (auto simp: entry_ok_def)
      from Cons.IH [OF this Cons.prems(2)] t Inr show ?thesis by simp
    qed
  qed
qed

lemma try_url_ok:
  "\<forall>kv \<in> set d. entry_ok S kv \<Longrightarrow> u \<in> S \<Longrightarrow> \<forall>kv \<in> set (snd (try_url b u d)). entry_ok S kv"
  using for_links_ok [of d S u]
  by (auto simp: try_url_def split: sum.splits prod.splits)
     (metis snd_conv)+

lemma for_sources_ok:
  "\<forall>kv \<in> set d. entry_ok S kv \<Longrightarrow> set us \<subseteq> S \<Longrightarrow>
   \<forall>kv \<in> set (snd (for_sources b us (nav, d))). entry_ok S kv"
proof (induction us arbitrary: nav d)
  case Nil
  then show ?case by simp
next
  case (Cons u us)
  obtain r d' where r: "try_url b u d = (r, d')" by (cases "try_url b u d")
  have d': "\<forall>kv \<in> set d'. entry_ok S kv"
    using try_url_ok [OF Cons.prems(1), of u b] Cons.prems(2) r by simp
  have us: "set us \<subseteq> S" using Cons.prems(2) by simp
  show ?case
  proof (cases r)
    case (Inl e)
    with r Cons.IH [OF d' us] show ?thesis by simp
  next
    case (Inr stop)
    with r Cons.IH [OF d' us] d' show ?thesis by (cases stop) simp_all
  qed
qed

lemma for_links_completes:
  "fst (for_links u ls d) = Inr () \<longleftrightarrow>
   list_all (\<lambda>l. \<not> isl (inner_text l) \<and> \<not> isl (get_attribute l ''href'')) ls"
  by (induction ls arbitrary: d) (auto split: sum.splits)

lemma try_url_breaks_iff: "fst (try_url b u d) = Inr True \<longleftrightarrow> completes_with_marker b u"
proof (cases "goto b u")
  case (Inl e)
  then show ?thesis by (simp add: try_url_def completes_with_marker_def)
next
  case pg: (Inr pg)
  show ?thesis
  proof (cases "page_content pg")
    case (Inl e)
    with pg show ?thesis by (simp add: try_url_def completes_with_marker_def)
  next
    case html: (Inr html)
    show ?thesis
    proof (cases "query_selector_all pg dungeon_selector")
      case (Inl e)
      with pg html show ?thesis by (simp add: try_url_def completes_with_marker_def)
    next
      case (Inr ls)
      obtain r d' where r: "for_links u (take 5 ls) d = (r, d')"
        by (cases "for_links u (take 5 ls) d")
      have "r = Inr () \<longleftrightarrow>
            list_all (\<lambda>l. \<not> isl (inner_text l) \<and> \<not> isl (get_attribute l ''href'')) (take 5 ls)"
        using for_links_completes [of u "take 5 ls" d] r by simp
      with pg html Inr r show ?thesis
        by (cases r) (simp_all add: try_url_def completes_with_marker_def)
    qed
  qed
qed

lemma for_sources_navigated:
  "fst (for_sources b us (nav, d)) = nav @ upto_first (completes_with_marker b) us"
proof (induction us arbitrary: nav d)
  case Nil
  then show ?case by simp
next
  case (Cons u us)
  obtain r d' where r: "try_url b u d = (r, d')" by (cases "try_url b u d")
  have stop: "r = Inr True \<longleftrightarrow> completes_with_marker b u"
    using try_url_breaks_iff [of b u d] r by simp
  show ?case
  proof (cases r)
    case (Inl e)
    with r stop Cons.IH [of "nav @ [u]" d'] show ?thesis by simp
  next
    case (Inr flag)
    with r stop Cons.IH [of "nav @ [u]" d'] show ?thesis by (cases flag) simp_all
  qed
qed

lemma for_links_run:
  "map inner_text ls = map Inr ts \<Longrightarrow> map (\<lambda>l. get_attribute l ''href'') ls = map Inr hs \<Longrightarrow>
   for_links u ls d = (Inr (), store_all (records_of u (zip ts hs)) d)"
proof (induction ls arbitrary: ts hs d)
  case Nil
  then show ?case by (simp add: store_all_def records_of_def)
next
  case (Cons l ls)
  from Cons.prems obtain t ts' where ts: "ts = t # ts'" "inner_text l = Inr t"
    "map inner_text ls = map Inr ts'" by (cases ts) auto
  from Cons.prems obtain h hs' where hs: "hs = h # hs'" "get_attribute l ''href'' = Inr h"
    "map (\<lambda>l. get_attribute l ''href'') ls = map Inr hs'" by (cases hs) auto
  show ?case
    using Cons.IH [OF ts(3) hs(3)] ts(1,2) hs(1,2)
    by (simp add: store_all_def records_of_def)
qed

lemma map_of_store_all: "map_of (store_all recs d) = map_of d ++ map_of (rev recs)"
proof (induction recs arbitrary: d)
  case Nil
  then show ?case by (simp add: store_all_def)
next
  case (Cons r recs)
  obtain k v where kv: "r = (k, v)" by (cases r)
  have "map_of (store_all (r # recs) d) = map_of (store_all recs (AList.update k v d))"
    by (simp add: store_all_def kv)
  also have "\<dots> = (map_of d)(k \<mapsto> v) ++ map_of (rev recs)"
    by (simp only: Cons.IH update_conv')
  also have "\<dots> = map_of d ++ map_of (rev (r # recs))"
    by (simp add: kv)
  finally show ?case .
qed

lemma try_url_source:
  "(k, v) \<in> set (snd (try_url b u [])) \<Longrightarrow> source v = u"
  using try_url_ok [of "[]" "{u}" u b] by (auto simp: entry_ok_def)

subsection \<open>The claims\<close>

text \<open>
  Claim C1, as the code has it. The scraper stops trying further addresses exactly at the
  first address that is processed without a raise and whose page source holds a marker,
  whether or not a record was found there: the addresses navigated to are the candidates up
  to and including that one. So when the first address is not such a one and stores no
  record, and the second is, the third address is not navigated to and the mapping
  returned is what the second address yields, every record of it with the second address as
  its source.
\<close>

theorem stops_at_first_marker_page:
  assumes "scrape_wow_content b = Inr (nav, d)"
  shows "nav = upto_first (completes_with_marker b) sources \<and>
         (\<not> completes_with_marker b (sources ! 0) \<and> snd (try_url b (sources ! 0) []) = [] \<and>
          completes_with_marker b (sources ! 1) \<longrightarrow>
            nav = [sources ! 0, sources ! 1] \<and> sources ! 2 \<notin> set nav \<and>
            d = snd (try_url b (sources ! 1) []) \<and>
            (\<forall>(k, v) \<in> set d. source v = sources ! 1))"
proof -
  have run: "for_sources b sources ([], []) = (nav, d)"
    using assms by (auto simp: scrape_wow_content_def split: sum.splits prod.splits)
  have nav: "nav = upto_first (completes_with_marker b) sources"
    using for_sources_navigated [of b sources "[]" "[]"] run by simp
  have second: "nav = [sources ! 0, sources ! 1] \<and> sources ! 2 \<notin> set nav \<and>
      d = snd (try_url b (sources ! 1) []) \<and> (\<forall>(k, v) \<in> set d. source v = sources ! 1)"
    if a: "\<not> completes_with_marker b (sources ! 0)" and e: "snd (try_url b (sources ! 0) []) = []"
      and c: "completes_with_marker b (sources ! 1)"
  proof -
    obtain r0 where r0: "try_url b (sources ! 0) [] = (r0, [])"
      using e by (cases "try_url b (sources ! 0) []") simp
    have n0: "r0 \<noteq> Inr True" using try_url_breaks_iff [of b "sources ! 0" "[]"] a r0 by simp
    obtain d1 where r1: "try_url b (sources ! 1) [] = (Inr True, d1)"
      using try_url_breaks_iff [of b "sources ! 1" "[]"] c
      by (cases "try_url b (sources ! 1) []") simp
    have "for_sources b sources ([], []) = ([sources ! 0, sources ! 1], d1)"
    proof (cases r0)
      case (Inl e)
      with r0 r1 show ?thesis by (simp add: sources_def)
    next
      case (Inr flag)
      with n0 have "flag = False" by simp
      with Inr r0 r1 show ?thesis by (simp add: sources_def)
    qed
    with run have nd: "nav = [sources ! 0, sources ! 1]" "d = d1" by simp_all
    have "\<forall>(k, v) \<in> set d. source v = sources ! 1"
      using try_url_source [of _ _ b "sources ! 1"] r1 nd(2) by auto
    with nd r1 show ?thesis by (simp add: sources_def)
  qed
  from nav second show ?thesis by blast
qed

theorem stops_at_first_marker_page_witness:
  "scrape_wow_content
     (fixture_browser [(wowhead, fixture_page ''Patch notes'' []), (icy_veins, priory_page),
                       (wowpedia, six_anchor_page)] (Inr ())) =
     Inr ([wowhead, icy_veins],
          [(''Priory of the Sacred Flame'', \<lparr>url = Some ''/dungeon/priory'', source = icy_veins\<rparr>)]) \<and>
   wowpedia \<notin> set [wowhead, icy_veins]"
proof -
  let ?b = "fixture_browser [(wowhead, fixture_page ''Patch notes'' []), (icy_veins, priory_page),
                       (wowpedia, six_anchor_page)] (Inr ())"
  let ?d = "[(''Priory of the Sacred Flame'', \<lparr>url = Some ''/dungeon/priory'', source = icy_veins\<rparr>)]"
  have run: "scrape_wow_content ?b = Inr ([wowhead, icy_veins], ?d)"
    by (simp add: fixture_defs)
  have a: "\<not> completes_with_marker ?b (sources ! 0)"
    by (simp add: fixture_defs)
  have e: "snd (try_url ?b (sources ! 0) []) = []"
    by (simp add: fixture_defs)
  have c: "completes_with_marker ?b (sources ! 1)"
    by (simp add: fixture_defs)
  from stops_at_first_marker_page [OF run] a e c
  have "sources ! 2 \<notin> set [wowhead, icy_veins]" by blast
  with run show ?thesis by (simp add: sources_def wowpedia_def)
qed

text \<open>
  The claim as the specification states it fails, in both directions. With the first
  browser the first address holds a marker and no anchor, the second would yield a record,
  and the scraper stops at the first address with an empty mapping and never navigates to
  the second. With the second browser the first address cannot be reached, the second
  yields a record and then raises, and the scraper goes on to the third address and
  returns records of both.
\<close>

theorem stops_without_records_counterexample:
  "scrape_wow_content
     (fixture_browser [(wowhead, empty_relevant_page), (icy_veins, priory_page)] (Inr ())) =
     Inr ([wowhead], []) \<and>
   try_url (fixture_browser [(wowhead, empty_relevant_page), (icy_veins, priory_page)] (Inr ()))
     wowhead [] = (Inr True, []) \<and>
   try_url (fixture_browser [(wowhead, empty_relevant_page), (icy_veins, priory_page)] (Inr ()))
     icy_veins [] =
     (Inr True, [(''Priory of the Sacred Flame'', \<lparr>url = Some ''/dungeon/priory'', source = icy_veins\<rparr>)]) \<and>
   scrape_wow_content
     (fixture_browser [(icy_veins, half_read_page), (wowpedia, tazavesh_page)] (Inr ())) =
     Inr ([wowhead, icy_veins, wowpedia],
          [(''Priory of the Sacred Flame'', \<lparr>url = Some ''/dungeon/priory'', source = icy_veins\<rparr>),
           (''Tazavesh, the Veiled Market'', \<lparr>url = Some ''/wiki/Tazavesh'', source = wowpedia\<rparr>)]) \<and>
   try_url (fixture_browser [(icy_veins, half_read_page), (wowpedia, tazavesh_page)] (Inr ()))
     wowhead [] = (Inl (Exception ''net::ERR_NAME_NOT_RESOLVED''), []) \<and>
   try_url (fixture_browser [(icy_veins, half_read_page), (wowpedia, tazavesh_page)] (Inr ()))
     icy_veins [] =
     (Inl (Exception ''Element is not attached to the DOM''),
      [(''Priory of the Sacred Flame'', \<lparr>url = Some ''/dungeon/priory'', source = icy_veins\<rparr>)])"
  by (simp add: fixture_defs)

text \<open>
  Claim C5. When the page source holds the marker \<^verbatim>\<open>Season 3\<close> (or \<^verbatim>\<open>War Within\<close>),
  the scraper reads the first five of the anchors that the selector query returns (those
  whose href contains \<^verbatim>\<open>dungeon\<close>), however many there are, and records exactly those
  among the five whose visible text contains one of the six name fragments; a later record
  with the same visible text overwrites an earlier one. Here \<open>ts\<close> and \<open>hs\<close> are the texts
  and hrefs of the first five anchors: nothing in the result depends on an anchor after
  the fifth. The visit ends in \<^verbatim>\<open>break\<close>.
\<close>

theorem first_five_anchors_recorded:
  assumes "goto b u = Inr pg" and "page_content pg = Inr html"
    and "sublist ''Season 3'' html \<or> sublist ''War Within'' html"
    and "query_selector_all pg dungeon_selector = Inr anchors"
    and "map inner_text (take 5 anchors) = map Inr ts"
    and "map (\<lambda>l. get_attribute l ''href'') (take 5 anchors) = map Inr hs"
  shows "try_url b u d = (Inr True, store_all (records_of u (zip ts hs)) d) \<and>
         map_of (store_all (records_of u (zip ts hs)) d) =
           map_of d ++ map_of (rev (records_of u (zip ts hs))) \<and>
         fst ` set (records_of u (zip ts hs)) = {t \<in> set ts. \<exists>name \<in> set name_fragments. sublist name t} \<and>
         length ts \<le> 5"
proof -
  have run: "try_url b u d = (Inr True, store_all (records_of u (zip ts hs)) d)"
    using assms for_links_run [OF assms(5,6), of u d]
    by (auto simp: try_url_def py_in_sublist)
  have len: "length ts = length (take 5 anchors)" "length hs = length (take 5 anchors)"
    using assms(5,6) by (metis length_map)+
  then have "fst ` set (zip ts hs) = set ts"
    by (metis map_fst_zip set_map)
  then have keys: "fst ` set (records_of u (zip ts hs)) = {t \<in> set ts. matches_name t}"
    by (force simp: records_of_def)
  from len have "length ts \<le> 5" by simp
  with run keys show ?thesis
    by (simp add: map_of_store_all matches_name_def list_ex_iff py_in_sublist)
qed

theorem first_five_anchors_recorded_witness:
  "try_url (fixture_browser [(wowhead, six_anchor_page)] (Inr ())) wowhead [] =
     (Inr True,
      [(''Ara-Kara, City of Echoes'', \<lparr>url = Some ''/guide/dungeon/ara-kara'', source = wowhead\<rparr>),
       (''The Dawnbreaker'', \<lparr>url = Some ''/dungeon/dawnbreaker'', source = wowhead\<rparr>)])"
proof -
  let ?b = "fixture_browser [(wowhead, six_anchor_page)] (Inr ())"
  have 1: "goto ?b wowhead = Inr six_anchor_page"
    by (simp add: fixture_browser_def)
  have 2: "page_content six_anchor_page = Inr ''<h1>Season 3 dungeons</h1>''"
    by (simp add: six_anchor_page_def fixture_page_def)
  have 3: "sublist ''Season 3'' ''<h1>Season 3 dungeons</h1>'' \<or>
           sublist ''War Within'' ''<h1>Season 3 dungeons</h1>''"
    by (simp add: sublist_Cons_right)
  have 4: "query_selector_all six_anchor_page dungeon_selector = Inr six_anchors"
    by (simp add: six_anchor_page_def fixture_page_def)
  have 5: "map inner_text (take 5 six_anchors) =
           map Inr [''Ara-Kara, City of Echoes'', ''News'', ''The Dawnbreaker'',
                    ''Ara-Kara, City of Echoes'', ''Halls of Atonement'']"
    by (simp add: fixture_link_def six_anchors_def)
  have 6: "map (\<lambda>l. get_attribute l ''href'') (take 5 six_anchors) =
           map Inr [Some ''/dungeon/ara-kara'', Some ''/news/dungeon-changes'',
                    Some ''/dungeon/dawnbreaker'', Some ''/guide/dungeon/ara-kara'',
                    Some ''/dungeon/halls'']"
    by (simp add: fixture_link_def six_anchors_def)
  from first_five_anchors_recorded [OF 1 2 3 4 5 6, where d = "[]"]
  show ?thesis
    by (simp add: records_of_def store_all_def matches_name_def name_fragments_def)
qed

text \<open>
  Claim C6, as the code has it. When the browser session starts and closes without a
  raise and the processing of each of the three addresses stores no record (it raises
  before one is stored, or the page holds no marker, or no anchor qualifies), the scraper
  returns an empty mapping and does not raise; every raise at an address is caught and
  the loop goes on to the next address, up to the first address that reaches \<^verbatim>\<open>break\<close>.
\<close>

theorem empty_when_nothing_stored:
  assumes "launch b = Inr ()" and "new_page b = Inr ()" and "set_extra_http_headers b = Inr ()"
    and "close b = Inr ()"
    and "\<forall>u \<in> set sources. snd (try_url b u []) = []"
  shows "scrape_wow_content b = Inr (upto_first (completes_with_marker b) sources, [])"
proof -
  have keep: "snd (for_sources b us (nav, [])) = []" if "set us \<subseteq> set sources" for us nav
    using that
  proof (induction us arbitrary: nav)
    case Nil
    then show ?case by simp
  next
    case (Cons u us)
    then have "snd (try_url b u []) = []" using assms(5) by simp
    then obtain r where r: "try_url b u [] = (r, [])" by (cases "try_url b u []") simp
    have us: "set us \<subseteq> set sources" using Cons.prems by simp
    show ?case
    proof (cases r)
      case (Inl e)
      with r Cons.IH [OF us] show ?thesis by simp
    next
      case (Inr flag)
      with r Cons.IH [OF us] show ?thesis by (cases flag) simp_all
    qed
  qed
  have "for_sources b sources ([], []) = (upto_first (completes_with_marker b) sources, [])"
    using keep [of sources "[]"] for_sources_navigated [of b sources "[]" "[]"]
    by (cases "for_sources b sources ([], [])") simp
  with assms(1-4) show ?thesis by (simp add: scrape_wow_content_def)
qed

theorem empty_when_nothing_stored_witness:
  "scrape_wow_content (fixture_browser [(icy_veins, fixture_page ''Season 3'' [detached_link])] (Inr ())) =
     Inr ([wowhead, icy_veins, wowpedia], [])"
proof -
  let ?b = "fixture_browser [(icy_veins, fixture_page ''Season 3'' [detached_link])] (Inr ())"
  have s: "launch ?b = Inr ()" "new_page ?b = Inr ()" "set_extra_http_headers ?b = Inr ()"
    "close ?b = Inr ()"
    by (simp_all add: fixture_browser_def)
  have e: "\<forall>u \<in> set sources. snd (try_url ?b u []) = []"
    by (simp add: fixture_defs)
  from empty_when_nothing_stored [OF s e]
  show ?thesis by (simp add: fixture_defs)
qed

text \<open>
  The claim as the specification states it fails in two ways. A record stored before a
  raise at the same address stays in the mapping: here every address raises and the mapping
  returned is not empty. And a raise of \<^verbatim>\<open>browser.close\<close> is not caught: here every address
  raises at navigation and the scraper raises.
\<close>

theorem partial_records_survive_counterexample:
  "scrape_wow_content (fixture_browser [(wowhead, half_read_page)] (Inr ())) =
     Inr ([wowhead, icy_veins, wowpedia],
          [(''Priory of the Sacred Flame'', \<lparr>url = Some ''/dungeon/priory'', source = wowhead\<rparr>)]) \<and>
   fst (try_url (fixture_browser [(wowhead, half_read_page)] (Inr ())) wowhead []) =
     Inl (Exception ''Element is not attached to the DOM'') \<and>
   fst (try_url (fixture_browser [(wowhead, half_read_page)] (Inr ())) icy_veins []) =
     Inl (Exception ''net::ERR_NAME_NOT_RESOLVED'') \<and>
   fst (try_url (fixture_browser [(wowhead, half_read_page)] (Inr ())) wowpedia []) =
     Inl (Exception ''net::ERR_NAME_NOT_RESOLVED'') \<and>
   scrape_wow_content (fixture_browser [] (Inl (Exception ''Target closed''))) =
     Inl (Exception ''Target closed'')"
  by (simp add: fixture_defs)

text \<open>
  Claim C10. Every entry of the mapping that the scraper returns has a key (the visible
  text of the anchor) that contains at least one of the six name fragments, and a
  \<open>source\<close> that is one of the three candidate addresses, whatever the pages hold and
  whichever calls raise.
\<close>

theorem returned_entries_ok:
  assumes "scrape_wow_content b = Inr (nav, d)" and "(k, v) \<in> set d"
  shows "(\<exists>name \<in> set name_fragments. sublist name k) \<and> source v \<in> set sources"
proof -
  have "d = snd (for_sources b sources ([], []))"
    using assms(1)
    by (auto simp: scrape_wow_content_def split: sum.splits prod.splits)
  moreover have "\<forall>kv \<in> set (snd (for_sources b sources ([], []))). entry_ok (set sources) kv"
    by (rule for_sources_ok) simp_all
  ultimately have "entry_ok (set sources) (k, v)" using assms(2) by blast
  then show ?thesis
    by (simp add: entry_ok_def matches_name_def list_ex_iff py_in_sublist)
qed

theorem returned_entries_ok_witness:
  "scrape_wow_content (fixture_browser [(icy_veins, priory_page)] (Inr ())) =
     Inr ([wowhead, icy_veins],
          [(''Priory of the Sacred Flame'', \<lparr>url = Some ''/dungeon/priory'', source = icy_veins\<rparr>)]) \<and>
   (\<exists>name \<in> set name_fragments. sublist name ''Priory of the Sacred Flame'') \<and>
   icy_veins \<in> set sources"
proof -
  let ?b = "fixture_browser [(icy_veins, priory_page)] (Inr ())"
  let ?v = "\<lparr>url = Some ''/dungeon/priory'', source = icy_veins\<rparr>"
  have run: "scrape_wow_content ?b =
     Inr ([wowhead, icy_veins], [(''Priory of the Sacred Flame'', ?v)])"
    by (simp add: fixture_defs)
  from returned_entries_ok [OF run, of "''Priory of the Sacred Flame''" ?v] run
  show ?thesis by simp
qed

section \<open>Properties of the patcher\<close>

subsection \<open>Insertions, and the loop over the test files\<close>

lemma slice_concat: "slice_to s i @ slice_from s i = s"
  by (simp add: slice_to_def slice_from_def)

lemma subseq_insertion: "subseq (xs @ ys) (xs @ t @ ys)"
  by (intro list_emb_append_mono list_emb_append2) simp_all

lemma subseq_slice_insertion: "subseq s (slice_to s i @ t @ slice_from s i)"
  using subseq_insertion [of "slice_to s i" "slice_from s i" t] by (simp add: slice_concat)

lemma subseq_add_build_file: "subseq content (add_build_file content b f n)"
  using subseq_slice_insertion [of content _ "build_file_entry b f n @ newline"]
  by (simp add: add_build_file_def Let_def)

lemma subseq_add_file_reference: "subseq content (add_file_reference content f n)"
  using subseq_slice_insertion [of content _ "file_ref_entry f n @ newline"]
  by (simp add: add_file_reference_def Let_def)

lemma subseq_add_to_sources_phase: "subseq content (add_to_sources_phase content b n)"
proof (cases "search_sources_phase content")
  case None
  then show ?thesis by (simp add: add_to_sources_phase_def)
next
  case (Some p)
  have "subseq (take p content @ drop p content)
          (take p content @ (newline @ build_file_ref b n) @ drop p content)"
    by (rule subseq_insertion)
  with Some show ?thesis by (simp add: add_to_sources_phase_def)
qed

lemma add_file_to_project_eq:
  "add_file_to_project content file_path file_name w =
     (insert_entries content file_name (nth_id w 0) (nth_id w 1),
      w\<lparr>drawn := Suc (Suc (drawn w)),
        stdout := stdout w @ [''Adding '' @ file_path @ '' with IDs: '' @
          nth_id w 0 @ '', '' @ nth_id w 1]\<rparr>)"
  by (simp add: add_file_to_project_def generate_uuid_def print_def Let_def insert_entries_def
      nth_id_def)

lemma subseq_insert_entries: "subseq content (insert_entries content n f b)"
proof -
  let ?c1 = "add_build_file content b f n"
  let ?c2 = "add_file_reference ?c1 f n"
  have "subseq content ?c1" by (rule subseq_add_build_file)
  also have "subseq ?c1 ?c2" by (rule subseq_add_file_reference)
  also have "subseq ?c2 (add_to_sources_phase ?c2 b n)" by (rule subseq_add_to_sources_phase)
  finally show ?thesis by (simp add: insert_entries_def)
qed

lemma add_test_files_fs: "fs (snd (add_test_files files (content, w))) = fs w"
proof (induction files arbitrary: content w)
  case Nil
  then show ?case by simp
next
  case (Cons e files)
  obtain p n where e: "e = (p, n)" by (cases e)
  show ?case
    by (simp add: e Cons.IH print_def add_file_to_project_eq)
qed





lemma add_test_files_all_present:
  "\<forall>(p, n) \<in> set files. sublist n content \<Longrightarrow>
   fst (add_test_files files (content, w)) = content \<and>
   drawn (snd (add_test_files files (content, w))) = drawn w"
proof (induction files arbitrary: w)
  case Nil
  then show ?case by simp
next
  case (Cons e files)
  obtain p n where e: "e = (p, n)" by (cases e)
  from Cons.prems have n: "py_in n content" and rest: "\<forall>(p, n) \<in> set files. sublist n content"
    by (simp_all add: e py_in_sublist)
  show ?case
    using Cons.IH [OF rest] n by (simp add: e print_def)
qed

lemma main_writes:
  assumes "fs w PROJECT_FILE = Some (File manifest)"
  shows "fst (main w) = Inr () \<and>
         fs (snd (main w)) = (fs w)(PROJECT_FILE \<mapsto> File (fst (add_test_files test_files (manifest, w)))) \<and>
         drawn (snd (main w)) = drawn (snd (add_test_files test_files (manifest, w))) \<and>
         (\<exists>ls. stdout (snd (main w)) = stdout (snd (add_test_files test_files (manifest, w))) @ ls)"
proof -
  obtain c' w' where run: "add_test_files test_files (manifest, w) = (c', w')"
    by (cases "add_test_files test_files (manifest, w)")
  have "fs w' = fs w" using add_test_files_fs [of test_files manifest w] run by simp
  with assms run show ?thesis
    by (simp add: main_def path_exists_def read_project_file_def write_project_file_def print_def)
qed

subsection \<open>The section search and the identifiers\<close>




lemma ascii_upper_dash:
  "c \<in> set ''0123456789abcdef-'' \<Longrightarrow> (ascii_upper c = CHR ''-'') = (c = CHR ''-'')"
proof -
  assume "c \<in> set ''0123456789abcdef-''"
  then have "list_ex (\<lambda>d. c = d) ''0123456789abcdef-''" by (simp add: list_ex_iff)
  then show ?thesis
    by (simp, elim disjE) (simp_all add: ascii_upper_def)
qed


lemma count_after_map:
  "\<forall>d \<in> set s. (f d = a) = (d = a) \<Longrightarrow>
   length (filter (\<lambda>c. c = a) (map f s)) = length (filter (\<lambda>c. c = a) s)"
  by (induction s) auto

lemma xcode_id_length:
  assumes "uuid_text s"
  shows "length (xcode_id s) = 24"
proof -
  let ?u = "map ascii_upper s"
  have "\<forall>d \<in> set s. (ascii_upper d = CHR ''-'') = (d = CHR ''-'')"
    using assms ascii_upper_dash unfolding uuid_text_def by blast
  then have "length (filter (\<lambda>c. c = CHR ''-'') ?u) = length (filter (\<lambda>c. c = CHR ''-'') s)"
    by (rule count_after_map)
  then have dashes: "length (filter (\<lambda>c. c = CHR ''-'') ?u) = 4"
    using assms by (simp only: uuid_text_def)
  have "length (filter (\<lambda>c. c = CHR ''-'') ?u) + length (filter (\<lambda>c. \<not> c = CHR ''-'') ?u) = length ?u"
    by (rule sum_length_filter_compl)
  moreover have "length ?u = 36" using assms by (simp only: uuid_text_def length_map)
  ultimately have "length (filter (\<lambda>c. c \<noteq> CHR ''-'') ?u) = 32"
    using dashes by linarith
  then show ?thesis by (simp add: xcode_id_def)
qed

subsection \<open>The claims that need no search in the manifest\<close>

text \<open>
  Claim C4. When each of the three file names \<^verbatim>\<open>DungeonTests.swift\<close>,
  \<^verbatim>\<open>BossEncounterTests.swift\<close> and \<^verbatim>\<open>SeasonTests.swift\<close> already occurs in the manifest text,
  one run of the patcher does not change the manifest, whichever source files exist: it
  does not raise, the text written back is the text read, so the disk is as before, and no
  identifier is drawn, so no entry is made for any file.
\<close>

theorem rerun_is_noop:
  assumes "fs w PROJECT_FILE = Some (File manifest)"
    and "sublist ''DungeonTests.swift'' manifest"
    and "sublist ''BossEncounterTests.swift'' manifest"
    and "sublist ''SeasonTests.swift'' manifest"
  shows "fst (main w) = Inr () \<and> fs (snd (main w)) = fs w \<and>
         fs (snd (main w)) PROJECT_FILE = Some (File manifest) \<and> drawn (snd (main w)) = drawn w"
proof -
  have "\<forall>(p, n) \<in> set test_files. sublist n manifest"
    using assms(2-4) by (simp add: test_files_def)
  from add_test_files_all_present [OF this, of w] main_writes [OF assms(1)] assms(1)
  show ?thesis by (simp add: fun_upd_idem)
qed

theorem rerun_is_noop_witness:
  "fst (main (fixture_world [(PROJECT_FILE, File patched_manifest), (season_tests, File [])])) = Inr () \<and>
   fs (snd (main (fixture_world [(PROJECT_FILE, File patched_manifest), (season_tests, File [])])))
     PROJECT_FILE = Some (File patched_manifest) \<and>
   drawn (snd (main (fixture_world [(PROJECT_FILE, File patched_manifest), (season_tests, File [])]))) = 0"
proof -
  let ?w = "fixture_world [(PROJECT_FILE, File patched_manifest), (season_tests, File [])]"
  have 1: "fs ?w PROJECT_FILE = Some (File patched_manifest)"
    by (simp add: fixture_world_def)
  have 2: "sublist ''DungeonTests.swift'' patched_manifest"
    by (simp add: patched_manifest_def sublist_Cons_right)
  have 3: "sublist ''BossEncounterTests.swift'' patched_manifest"
    by (simp add: patched_manifest_def sublist_Cons_right)
  have 4: "sublist ''SeasonTests.swift'' patched_manifest"
    by (simp add: patched_manifest_def sublist_Cons_right)
  from rerun_is_noop [OF 1 2 3 4] show ?thesis by (simp add: fixture_world_def)
qed

text \<open>
  Claim C8. When the manifest file does not exist at the fixed path, \<^verbatim>\<open>main\<close> prints the
  error line and returns without raising: the manifest is neither read nor edited nor
  written, so the disk is as before, and no identifier is drawn.
\<close>

theorem missing_manifest_aborts:
  assumes "fs w PROJECT_FILE = None"
  shows "main w = (Inr (), w\<lparr>stdout := stdout w @ [''Error: HealerKit.xcodeproj/project.pbxproj not found'']\<rparr>) \<and>
         fs (snd (main w)) = fs w \<and> drawn (snd (main w)) = drawn w"
  using assms by (simp add: main_def path_exists_def print_def PROJECT_FILE_def)

theorem missing_manifest_aborts_witness:
  "main (fixture_world [(dungeon_tests, File [])]) =
     (Inr (), (fixture_world [(dungeon_tests, File [])])
        \<lparr>stdout := [''Error: HealerKit.xcodeproj/project.pbxproj not found'']\<rparr>)"
proof -
  have "fs (fixture_world [(dungeon_tests, File [])]) PROJECT_FILE = None"
    by (simp add: fixture_world_def PROJECT_FILE_def dungeon_tests_def)
  from missing_manifest_aborts [OF this] show ?thesis by (simp add: fixture_world_def)
qed

text \<open>
  Claim C9. For every manifest text, path and file name, and whatever identifiers are
  drawn, the text that \<^verbatim>\<open>add_file_to_project\<close> returns holds every character of the input
  text in its original order (characters are inserted, none is deleted or moved), so it is
  at least as long as the input.
\<close>

theorem insertions_only:
  "subseq content (fst (add_file_to_project content file_path file_name w)) \<and>
   length content \<le> length (fst (add_file_to_project content file_path file_name w))"
proof -
  have "subseq content (fst (add_file_to_project content file_path file_name w))"
    unfolding add_file_to_project_eq fst_conv by (rule subseq_insert_entries)
  then show ?thesis by (simp add: list_emb_length)
qed
subsection \<open>A manifest without a file-reference section\<close>












subsection \<open>The search for the build phase\<close>
















subsection \<open>What the new entries hold\<close>




















subsection \<open>Registering one file in a well-formed manifest\<close>
















subsection \<open>Registering a file in a manifest without a file-reference section\<close>




subsection \<open>A run with a missing source file\<close>






subsection \<open>Registering the three test files\<close>



end
